theory Spec2Isabelle
  imports Complex_Main
begin

section \<open>Python values, exceptions and logging\<close>

text \<open>
  The tracker works on the nested mapping that \<^verbatim>\<open>xmltodict.parse\<close> produces and on
  the dictionaries it builds itself. A value is \<^verbatim>\<open>None\<close>, a string, a number, a list
  or a dictionary. Python's \<^verbatim>\<open>float\<close> and \<^verbatim>\<open>int\<close> are both read as real numbers:
  rounding and overflow of binary floating point are outside this model. A dictionary
  is an association list in insertion order, looked up by its first matching key.
\<close>

datatype pyerr =
    KeyError | TypeError | ValueError | IndexError | ZeroDivisionError
  | UnboundLocalError | RequestException | ExpatError | OtherError string

datatype pyval =
    PNone
  | PStr string
  | PNum real
  | PList "pyval list"
  | PDict "(string \<times> pyval) list"

text \<open>
  A call either raises (\<open>Inl\<close>) or returns (\<open>Inr\<close>); it also emits the lines it
  passed to \<^verbatim>\<open>logging.error\<close>, in order. Interpolated parts of a log line are left out.
\<close>

type_synonym 'a res = "pyerr + 'a"
type_synonym 'a logged = "string list \<times> 'a res"

definition py_bind :: "'a res \<Rightarrow> ('a \<Rightarrow> 'b res) \<Rightarrow> 'b res" where
  "py_bind m f = (case m of Inl e \<Rightarrow> Inl e | Inr v \<Rightarrow> f v)"

text \<open>\<^verbatim>\<open>v[k]\<close> with a string key: only a dictionary can be subscripted by a string.\<close>

fun py_getitem :: "pyval \<Rightarrow> string \<Rightarrow> pyval res" where
  "py_getitem (PDict kvs) k = (case map_of kvs k of None \<Rightarrow> Inl KeyError | Some v \<Rightarrow> Inr v)"
| "py_getitem _ k = Inl TypeError"

text \<open>\<^verbatim>\<open>v[k1][k2]...[kn]\<close>, evaluated left to right.\<close>

fun py_path :: "pyval \<Rightarrow> string list \<Rightarrow> pyval res" where
  "py_path v [] = Inr v"
| "py_path v (k # ks) = py_bind (py_getitem v k) (\<lambda>w. py_path w ks)"

section \<open>Extractors\<close>

definition missing_key_msg :: string where
  "missing_key_msg = ''Error: Missing or incorrect key in data dictionary''"

text \<open>
  \<^verbatim>\<open>format_header\<close>, \<^verbatim>\<open>format_comment\<close> and \<^verbatim>\<open>format_metadata\<close>: the
  subscript chain inside \<^verbatim>\<open>try\<close>, with the one handler \<^verbatim>\<open>except KeyError\<close> that
  logs and returns the empty value. Any other exception leaves the function.
\<close>

definition format_header :: "pyval \<Rightarrow> pyval logged" where
  "format_header data_dict =
     (case py_path data_dict [''ndm'', ''oem'', ''header''] of
        Inr formatted_header \<Rightarrow> ([], Inr formatted_header)
      | Inl e \<Rightarrow> if e = KeyError then ([missing_key_msg], Inr (PDict [])) else ([], Inl e))"

definition format_comment :: "pyval \<Rightarrow> pyval logged" where
  "format_comment data_dict =
     (case py_path data_dict [''ndm'', ''oem'', ''body'', ''segment'', ''data'', ''COMMENT''] of
        Inr formatted_comment \<Rightarrow> ([], Inr formatted_comment)
      | Inl e \<Rightarrow> if e = KeyError then ([missing_key_msg], Inr (PList [])) else ([], Inl e))"

definition format_metadata :: "pyval \<Rightarrow> pyval logged" where
  "format_metadata data_dict =
     (case py_path data_dict [''ndm'', ''oem'', ''body'', ''segment'', ''metadata''] of
        Inr formatted_metadata \<Rightarrow> ([], Inr formatted_metadata)
      | Inl e \<Rightarrow> if e = KeyError then ([missing_key_msg], Inr (PDict [])) else ([], Inl e))"

section \<open>Timestamps\<close>

text \<open>
  A \<^verbatim>\<open>datetime.datetime\<close> without time zone. The constructor of the class refuses
  fields out of range with \<^verbatim>\<open>ValueError\<close>, so every datetime object satisfies
  \<open>valid_datetime\<close>.
\<close>

record datetime =
  year :: nat
  month :: nat
  day :: nat
  hour :: nat
  minute :: nat
  second :: nat
  microsecond :: nat

definition leap_year :: "nat \<Rightarrow> bool" where
  "leap_year y = (y mod 4 = 0 \<and> (y mod 100 \<noteq> 0 \<or> y mod 400 = 0))"

definition days_in_month :: "nat \<Rightarrow> nat \<Rightarrow> nat" where
  "days_in_month y m =
     (if m = 2 then (if leap_year y then 29 else 28)
      else if m \<in> {4, 6, 9, 11} then 30 else 31)"

definition valid_datetime :: "datetime \<Rightarrow> bool" where
  "valid_datetime dt =
     (1 \<le> year dt \<and> year dt \<le> 9999 \<and> 1 \<le> month dt \<and> month dt \<le> 12 \<and>
      1 \<le> day dt \<and> day dt \<le> days_in_month (year dt) (month dt) \<and>
      hour dt < 24 \<and> minute dt < 60 \<and> second dt < 60 \<and> microsecond dt < 1000000)"

text \<open>Decimal rendering of a number, and the \<^verbatim>\<open>%0wd\<close> padding with zeros.\<close>

definition digit_char :: "nat \<Rightarrow> char" where
  "digit_char d = ''0123456789'' ! d"

fun digits :: "nat \<Rightarrow> string" where
  "digits n = (if n < 10 then [digit_char n] else digits (n div 10) @ [digit_char (n mod 10)])"

definition zero_pad :: "nat \<Rightarrow> nat \<Rightarrow> string" where
  "zero_pad w n = replicate (w - length (digits n)) (CHR ''0'') @ digits n"

text \<open>
  \<^verbatim>\<open>datetime.strftime(timestamp, '%Y-%m-%d %H:%M:%S.%f')\<close>. The year is padded to four
  digits, as the documentation of \<^verbatim>\<open>%Y\<close> lists it (0001, ..., 9999).
\<close>

definition strftime :: "datetime \<Rightarrow> string" where
  "strftime dt =
     zero_pad 4 (year dt) @ ''-'' @ zero_pad 2 (month dt) @ ''-'' @ zero_pad 2 (day dt) @ '' '' @
     zero_pad 2 (hour dt) @ '':'' @ zero_pad 2 (minute dt) @ '':'' @ zero_pad 2 (second dt) @
     ''.'' @ zero_pad 6 (microsecond dt)"

text \<open>
  \<^verbatim>\<open>datetime.strptime(v, fmt)\<close> for a fixed format. The recogniser of the format on a
  string is a parameter \<open>parse\<close>; the argument that is not a string raises
  \<^verbatim>\<open>TypeError\<close>, the string that does not match or names no valid datetime raises
  \<^verbatim>\<open>ValueError\<close>.
\<close>

definition py_strptime :: "(string \<Rightarrow> datetime option) \<Rightarrow> pyval \<Rightarrow> datetime res" where
  "py_strptime parse v =
     (case v of
        PStr s \<Rightarrow>
          (case parse s of
             None \<Rightarrow> Inl ValueError
           | Some dt \<Rightarrow> if valid_datetime dt then Inr dt else Inl ValueError)
      | _ \<Rightarrow> Inl TypeError)"

text \<open>
  \<^verbatim>\<open>float(v)\<close>: a number converts, a string is parsed by the parameter \<open>parse\<close>
  (\<^verbatim>\<open>ValueError\<close> when it is no literal), anything else raises \<^verbatim>\<open>TypeError\<close>.
\<close>

definition py_float :: "(string \<Rightarrow> real option) \<Rightarrow> pyval \<Rightarrow> real res" where
  "py_float parse v =
     (case v of
        PNum r \<Rightarrow> Inr r
      | PStr s \<Rightarrow> (case parse s of None \<Rightarrow> Inl ValueError | Some r \<Rightarrow> Inr r)
      | _ \<Rightarrow> Inl TypeError)"

section \<open>State-vector normalizer\<close>

definition state_vector_key_msg :: string where
  "state_vector_key_msg = ''Error: Missing or incorrect key in state vector''"

definition parse_msg :: string where
  "parse_msg = ''Error: Unable to parse data to the correct format''"

text \<open>\<^verbatim>\<open>float(stateVector[k]['#text'])\<close>.\<close>

definition text_float :: "(string \<Rightarrow> real option) \<Rightarrow> pyval \<Rightarrow> string \<Rightarrow> real res" where
  "text_float pf stateVector k =
     py_bind (py_getitem stateVector k) (\<lambda>v.
     py_bind (py_getitem v ''#text'') (py_float pf))"

text \<open>
  The body of the \<^verbatim>\<open>try\<close> inside the loop of \<^verbatim>\<open>format_data\<close>: the timestamp is parsed
  and rendered first, then the six numbers in the order of the dictionary display.
\<close>

definition state_vector_record ::
  "(string \<Rightarrow> datetime option) \<Rightarrow> (string \<Rightarrow> real option) \<Rightarrow> pyval \<Rightarrow> pyval res" where
  "state_vector_record pe pf stateVector =
     py_bind (py_getitem stateVector ''EPOCH'') (\<lambda>ep.
     py_bind (py_strptime pe ep) (\<lambda>dt.
     py_bind (text_float pf stateVector ''X'') (\<lambda>x.
     py_bind (text_float pf stateVector ''Y'') (\<lambda>y.
     py_bind (text_float pf stateVector ''Z'') (\<lambda>z.
     py_bind (text_float pf stateVector ''X_DOT'') (\<lambda>dx.
     py_bind (text_float pf stateVector ''Y_DOT'') (\<lambda>dy.
     py_bind (text_float pf stateVector ''Z_DOT'') (\<lambda>dz.
       Inr (PDict [(''timestamp'', PStr (strftime dt)),
                   (''x'', PNum x), (''y'', PNum y), (''z'', PNum z),
                   (''dx'', PNum dx), (''dy'', PNum dy), (''dz'', PNum dz)])))))))))"

text \<open>
  \<^verbatim>\<open>for stateVector in data_list\<close>: a list yields its elements, a dictionary its keys,
  a string its characters; \<^verbatim>\<open>None\<close> and a number are not iterable.
\<close>

fun py_iter :: "pyval \<Rightarrow> pyval list res" where
  "py_iter (PList xs) = Inr xs"
| "py_iter (PDict kvs) = Inr (map (\<lambda>kv. PStr (fst kv)) kvs)"
| "py_iter (PStr s) = Inr (map (\<lambda>c. PStr [c]) s)"
| "py_iter _ = Inl TypeError"

text \<open>
  The loop, with the list built so far and the lines logged so far. \<^verbatim>\<open>KeyError\<close>,
  \<^verbatim>\<open>ValueError\<close> and \<^verbatim>\<open>TypeError\<close> are caught: the entry is logged and skipped.
\<close>

fun format_data_loop ::
  "(string \<Rightarrow> datetime option) \<Rightarrow> (string \<Rightarrow> real option) \<Rightarrow>
   pyval list \<Rightarrow> pyval list \<Rightarrow> string list \<Rightarrow> pyval list logged" where
  "format_data_loop pe pf [] formatted_data logs = (logs, Inr formatted_data)"
| "format_data_loop pe pf (stateVector # rest) formatted_data logs =
     (case state_vector_record pe pf stateVector of
        Inr r \<Rightarrow> format_data_loop pe pf rest (formatted_data @ [r]) logs
      | Inl e \<Rightarrow>
          if e = KeyError then
            format_data_loop pe pf rest formatted_data (logs @ [state_vector_key_msg])
          else if e = ValueError \<or> e = TypeError then
            format_data_loop pe pf rest formatted_data (logs @ [parse_msg])
          else (logs, Inl e))"

definition format_data ::
  "(string \<Rightarrow> datetime option) \<Rightarrow> (string \<Rightarrow> real option) \<Rightarrow> pyval \<Rightarrow> pyval list logged" where
  "format_data pe pf data_dict =
     (case py_path data_dict [''ndm'', ''oem'', ''body'', ''segment'', ''data'', ''stateVector''] of
        Inl e \<Rightarrow> if e = KeyError then ([missing_key_msg], Inr []) else ([], Inl e)
      | Inr data_list \<Rightarrow>
          (case py_iter data_list of
             Inl e \<Rightarrow> ([], Inl e)
           | Inr stateVectors \<Rightarrow> format_data_loop pe pf stateVectors [] []))"

section \<open>Recognisers for the feed's literals\<close>

text \<open>
  The two parameters of the normalizer, made concrete so that the model runs on the
  repository's test data. \<open>strptime_oem\<close> recognises \<^verbatim>\<open>%Y-%jT%H:%M:%S.%fZ\<close> as the
  standard library documents it: a four-digit year, a day of the year of one to three
  digits in 1..366, hour, minute and second of one or two digits, one to six digits
  of fraction padded on the right to microseconds, letters matched without regard to
  case, and nothing left over. The date is the first of January advanced by the day
  of the year minus one.
\<close>

definition is_digit :: "char \<Rightarrow> bool" where
  "is_digit c = (c \<in> set ''0123456789'')"

definition digit_val :: "char \<Rightarrow> nat" where
  "digit_val c = of_char c - 48"

definition nat_of_digits :: "string \<Rightarrow> nat" where
  "nat_of_digits ds = foldl (\<lambda>n c. 10 * n + digit_val c) 0 ds"

definition digit_field :: "nat \<Rightarrow> nat \<Rightarrow> string \<Rightarrow> (string \<times> string) option" where
  "digit_field lo hi s =
     (let ds = takeWhile is_digit s
      in if lo \<le> length ds \<and> length ds \<le> hi then Some (ds, dropWhile is_digit s) else None)"

definition literal :: "string \<Rightarrow> string \<Rightarrow> string option" where
  "literal cs s = (case s of [] \<Rightarrow> None | c # r \<Rightarrow> if c \<in> set cs then Some r else None)"

definition days_in_year :: "nat \<Rightarrow> nat" where
  "days_in_year y = (if leap_year y then 366 else 365)"

function month_day :: "nat \<Rightarrow> nat \<Rightarrow> nat \<Rightarrow> nat \<times> nat" where
  "month_day y m d =
     (if m < 12 \<and> days_in_month y m < d then month_day y (Suc m) (d - days_in_month y m)
      else (m, d))"
  by pat_completeness auto
termination
  by (relation "measure (\<lambda>(y, m, d). 12 - m)") auto

definition date_of_julian :: "nat \<Rightarrow> nat \<Rightarrow> nat \<times> nat \<times> nat" where
  "date_of_julian y j =
     (if days_in_year y < j then (Suc y, 1, j - days_in_year y)
      else (y, month_day y 1 j))"

definition strptime_oem :: "string \<Rightarrow> datetime option" where
  "strptime_oem s =
     Option.bind (digit_field 4 4 s) (\<lambda>(Y, r).
     Option.bind (literal ''-'' r) (\<lambda>r.
     Option.bind (digit_field 1 3 r) (\<lambda>(j, r).
     Option.bind (literal ''Tt'' r) (\<lambda>r.
     Option.bind (digit_field 1 2 r) (\<lambda>(H, r).
     Option.bind (literal '':'' r) (\<lambda>r.
     Option.bind (digit_field 1 2 r) (\<lambda>(M, r).
     Option.bind (literal '':'' r) (\<lambda>r.
     Option.bind (digit_field 1 2 r) (\<lambda>(S, r).
     Option.bind (literal ''.'' r) (\<lambda>r.
     Option.bind (digit_field 1 6 r) (\<lambda>(f, r).
     Option.bind (literal ''Zz'' r) (\<lambda>r.
       if r \<noteq> [] \<or> nat_of_digits j < 1 \<or> 366 < nat_of_digits j \<or> 23 < nat_of_digits H
          \<or> 59 < nat_of_digits M \<or> 61 < nat_of_digits S
       then None
       else
         (case date_of_julian (nat_of_digits Y) (nat_of_digits j) of
            (y, m, d) \<Rightarrow>
              Some \<lparr>year = y, month = m, day = d, hour = nat_of_digits H,
                    minute = nat_of_digits M, second = nat_of_digits S,
                    microsecond = nat_of_digits f * 10 ^ (6 - length f)\<rparr>)))))))))))))"

text \<open>
  \<open>float_literal\<close> recognises the plain decimal literals of the feed and of the test
  data: an optional sign, digits, and an optional fraction. The other spellings that
  \<^verbatim>\<open>float\<close> accepts (exponents, \<^verbatim>\<open>inf\<close>, \<^verbatim>\<open>nan\<close>, surrounding blanks) are not
  recognised by it; the theorems below hold for every recogniser.
\<close>

definition unsigned_literal :: "string \<Rightarrow> real option" where
  "unsigned_literal s =
     (let ip = takeWhile is_digit s; r = dropWhile is_digit s
      in if ip = [] then None
         else if r = [] then Some (real (nat_of_digits ip))
         else if hd r = CHR ''.'' \<and> list_all is_digit (tl r)
         then Some (real (nat_of_digits ip) + real (nat_of_digits (tl r)) / 10 ^ length (tl r))
         else None)"

definition float_literal :: "string \<Rightarrow> real option" where
  "float_literal s =
     (case s of
        [] \<Rightarrow> None
      | c # r \<Rightarrow>
          if c = CHR ''-'' then map_option uminus (unsigned_literal r)
          else if c = CHR ''+'' then unsigned_literal r
          else unsigned_literal s)"

section \<open>The repository's test data\<close>

definition test_state_vector :: "string \<Rightarrow> string list \<Rightarrow> pyval" where
  "test_state_vector epoch vs =
     PDict ((''EPOCH'', PStr epoch) #
            map (\<lambda>(k, v). (k, PDict [(''#text'', PStr v)]))
                (zip [''X'', ''Y'', ''Z'', ''X_DOT'', ''Y_DOT'', ''Z_DOT''] vs))"

definition test_state_vectors :: "pyval list" where
  "test_state_vectors =
     [test_state_vector ''1000-001T00:00:00.000Z'' [''1'', ''-2'', ''3'', ''4'', ''-5'', ''6''],
      test_state_vector ''1000-002T00:00:00.000Z'' [''-7'', ''8'', ''-9'', ''10'', ''-11'', ''12''],
      test_state_vector ''1000-003T00:00:00.000Z'' [''13'', ''-14'', ''15'', ''16'', ''-17'', ''18''],
      test_state_vector ''1000-004T00:00:00.000Z'' [''-19'', ''20'', ''-21'', ''22'', ''-23'', ''24'']]"

definition test_data_dict :: pyval where
  "test_data_dict =
     PDict [(''ndm'', PDict [(''oem'', PDict
       [(''header'', PDict [(''TEST1'', PStr ''TEST1 VALUE''), (''TEST2'', PStr ''TEST2 VALUE'')]),
        (''body'', PDict [(''segment'', PDict
          [(''metadata'', PDict [(''TEST1'', PStr ''TEST1 VALUE''), (''TEST2'', PStr ''TEST2 VALUE'')]),
           (''data'', PDict
             [(''COMMENT'', PList [PStr ''COMMENT LINE 1'', PStr ''COMMENT LINE 2'']),
              (''stateVector'', PList test_state_vectors)])])])])])]"

definition test_record :: "string \<Rightarrow> real list \<Rightarrow> pyval" where
  "test_record ts vs =
     PDict ((''timestamp'', PStr ts) #
            zip [''x'', ''y'', ''z'', ''dx'', ''dy'', ''dz''] (map PNum vs))"

definition test_formatted_data :: "pyval list" where
  "test_formatted_data =
     [test_record ''1000-01-01 00:00:00.000000'' [1, -2, 3, 4, -5, 6],
      test_record ''1000-01-02 00:00:00.000000'' [-7, 8, -9, 10, -11, 12],
      test_record ''1000-01-03 00:00:00.000000'' [13, -14, 15, 16, -17, 18],
      test_record ''1000-01-04 00:00:00.000000'' [-19, 20, -21, 22, -23, 24]]"

section \<open>Fetcher\<close>

text \<open>
  What \<^verbatim>\<open>requests.get(url)\<close> does: it raises a transport error (a subclass of
  \<^verbatim>\<open>RequestException\<close>) or returns a response. \<^verbatim>\<open>xmltodict.parse\<close> is a parameter:
  \<open>None\<close> stands for \<^verbatim>\<open>ExpatError\<close>.
\<close>

record http_response =
  status_code :: nat
  text_body :: string

datatype get_outcome = GetRaises | GetReturns http_response

definition fetch_msg :: string where
  "fetch_msg = ''Error fetching data: ''"

definition xml_msg :: string where
  "xml_msg = ''Error parsing XML data: ''"

text \<open>
  Reading a local variable: the variable that no assignment has bound raises
  \<^verbatim>\<open>UnboundLocalError\<close>.
\<close>

definition read_local :: "'a option \<Rightarrow> 'a res" where
  "read_local var = (case var of None \<Rightarrow> Inl UnboundLocalError | Some v \<Rightarrow> Inr v)"

text \<open>
  The two handlers of \<^verbatim>\<open>fetch_data\<close>. Each formats its log line from the exception
  and from the local variable \<^verbatim>\<open>response\<close>, then returns \<^verbatim>\<open>None\<close>.
\<close>

definition request_exception_handler :: "http_response option \<Rightarrow> pyval logged" where
  "request_exception_handler response =
     (case read_local response of
        Inl e \<Rightarrow> ([], Inl e)
      | Inr _ \<Rightarrow> ([fetch_msg], Inr PNone))"

definition expat_error_handler :: "http_response option \<Rightarrow> pyval logged" where
  "expat_error_handler response =
     (case read_local response of
        Inl e \<Rightarrow> ([], Inl e)
      | Inr _ \<Rightarrow> ([xml_msg], Inr PNone))"

definition fetch_data :: "(string \<Rightarrow> pyval option) \<Rightarrow> get_outcome \<Rightarrow> pyval logged" where
  "fetch_data xml_parse outcome =
     (case outcome of
        GetRaises \<Rightarrow> request_exception_handler None
      | GetReturns response \<Rightarrow>
          if status_code response \<noteq> 200 then request_exception_handler (Some response)
          else
            (case xml_parse (text_body response) of
               None \<Rightarrow> expat_error_handler (Some response)
             | Some data_dict \<Rightarrow> ([], Inr data_dict)))"

section \<open>Query engine\<close>

definition closest_epoch_msg :: string where
  "closest_epoch_msg = ''Error: Missing or incorrect keys in closest_epoch''"


text \<open>\<^verbatim>\<open>v ** 2\<close>: defined on numbers only.\<close>

definition py_square :: "pyval \<Rightarrow> real res" where
  "py_square v = (case v of PNum r \<Rightarrow> Inr (r ^ 2) | _ \<Rightarrow> Inl TypeError)"

text \<open>
  \<^verbatim>\<open>math.sqrt(data['dx'] ** 2 + data['dy'] ** 2 + data['dz'] ** 2)\<close>, evaluated left to
  right.
\<close>

definition speed_of :: "pyval \<Rightarrow> real res" where
  "speed_of data =
     py_bind (py_getitem data ''dx'') (\<lambda>dx. py_bind (py_square dx) (\<lambda>dx2.
     py_bind (py_getitem data ''dy'') (\<lambda>dy. py_bind (py_square dy) (\<lambda>dy2.
     py_bind (py_getitem data ''dz'') (\<lambda>dz. py_bind (py_square dz) (\<lambda>dz2.
       Inr (sqrt (dx2 + dy2 + dz2))))))))"




definition calculate_instantaneous_speed :: "pyval \<Rightarrow> pyval logged" where
  "calculate_instantaneous_speed closest_epoch =
     (case speed_of closest_epoch of
        Inr instantaneous_speed \<Rightarrow> ([], Inr (PNum instantaneous_speed))
      | Inl e \<Rightarrow>
          if e = KeyError \<or> e = TypeError then ([closest_epoch_msg], Inr PNone)
          else ([], Inl e))"

section \<open>Geodetic converter\<close>

text \<open>
  What the astronomy library hands back: the \<^verbatim>\<open>EarthLocation\<close> with its latitude
  and longitude in degrees and its height.
\<close>

record earth_location =
  lat_deg :: real
  lon_deg :: real
  height_value :: real

definition timestamp_key_msg :: string where
  "timestamp_key_msg = ''Error: Missing or incorrect timestamp key in epoch''"

definition positional_key_msg :: string where
  "positional_key_msg = ''Error: Missing or incorrect positional keys in epoch''"

definition transform_msg :: string where
  "transform_msg = ''Error: Something went wrong with coordinate transformations''"

text \<open>
  Lines 248 to 261 of \<^verbatim>\<open>cartesian_to_geo\<close>, the code after the second \<^verbatim>\<open>try\<close>
  statement. \<open>ears\<close> is the local variable of that name, bound or not; \<open>reverse\<close> is
  \<^verbatim>\<open>geocoder.reverse\<close>, which raises, returns \<^verbatim>\<open>None\<close> or returns a location with
  an address.
\<close>

definition geo_of_ears ::
  "(real \<Rightarrow> real \<Rightarrow> string option res) \<Rightarrow> string list \<Rightarrow> earth_location option \<Rightarrow> pyval logged" where
  "geo_of_ears reverse logs ears_var =
     (case read_local ears_var of
        Inl e \<Rightarrow> (logs, Inl e)
      | Inr ears \<Rightarrow>
          (let lon = lon_deg ears + 90 - 15;
               lon = (if lon > 180 then lon - 180 * 2 else lon)
           in case reverse (lat_deg ears) lon of
                Inl e \<Rightarrow> (logs, Inl e)
              | Inr geoloc \<Rightarrow>
                  (logs, Inr (PList [PDict
                     [(''lat'', PNum (lat_deg ears)),
                      (''lon'', PNum lon),
                      (''alt'', PNum (height_value ears)),
                      (''geoloc'', PStr (case geoloc of
                                          None \<Rightarrow> ''Over Ocean or Unknown''
                                        | Some address \<Rightarrow> address))]]))))"

text \<open>
  \<^verbatim>\<open>cartesian_to_geo\<close>. The parameters are the library calls: \<open>pc\<close> recognises
  \<^verbatim>\<open>%Y-%m-%d %H:%M:%S.%f\<close>, \<open>instant\<close> is \<^verbatim>\<open>.timestamp()\<close> followed by the
  \<^verbatim>\<open>Time\<close> constructor, \<open>transform\<close> is the four library calls of the second
  \<^verbatim>\<open>try\<close> on the values of \<^verbatim>\<open>epoch['x']\<close>, \<^verbatim>\<open>epoch['y']\<close> and \<^verbatim>\<open>epoch['z']\<close>.
  The first \<^verbatim>\<open>try\<close> returns \<^verbatim>\<open>None\<close> on \<^verbatim>\<open>KeyError\<close> and \<^verbatim>\<open>TypeError\<close>; so does the
  second, whose bare \<^verbatim>\<open>except\<close> logs and falls through with \<^verbatim>\<open>ears\<close> unbound.
\<close>

definition cartesian_to_geo ::
  "(string \<Rightarrow> datetime option) \<Rightarrow> (datetime \<Rightarrow> 'i res) \<Rightarrow>
   ('i \<Rightarrow> pyval \<Rightarrow> pyval \<Rightarrow> pyval \<Rightarrow> earth_location res) \<Rightarrow>
   (real \<Rightarrow> real \<Rightarrow> string option res) \<Rightarrow> pyval \<Rightarrow> pyval logged" where
  "cartesian_to_geo pc instant transform reverse epoch =
     (case py_bind (py_getitem epoch ''timestamp'') (\<lambda>ts.
           py_bind (py_strptime pc ts) instant) of
        Inl e \<Rightarrow>
          if e = KeyError \<or> e = TypeError then ([timestamp_key_msg], Inr PNone)
          else ([], Inl e)
      | Inr unix_timestamp \<Rightarrow>
          (case py_bind (py_getitem epoch ''x'') (\<lambda>x.
                py_bind (py_getitem epoch ''y'') (\<lambda>y.
                py_bind (py_getitem epoch ''z'') (\<lambda>z.
                  transform unix_timestamp x y z))) of
             Inl e \<Rightarrow>
               if e = KeyError \<or> e = TypeError then ([positional_key_msg], Inr PNone)
               else geo_of_ears reverse [transform_msg] None
           | Inr ears \<Rightarrow> geo_of_ears reverse [] (Some ears)))"

section \<open>API layer\<close>

text \<open>
  \<^verbatim>\<open>xs[i:j]\<close> on a list: a negative bound counts from the end, every bound is clamped
  to the list, and \<open>None\<close> as upper bound means the end.
\<close>

definition slice_bound :: "nat \<Rightarrow> int \<Rightarrow> nat" where
  "slice_bound n k = (if k < 0 then nat (max 0 (int n + k)) else min (nat k) n)"

definition py_slice :: "'a list \<Rightarrow> int \<Rightarrow> int option \<Rightarrow> 'a list" where
  "py_slice xs i j =
     (let n = length xs;
          start = slice_bound n i;
          stop = (case j of None \<Rightarrow> n | Some k \<Rightarrow> slice_bound n k)
      in take (stop - start) (drop start xs))"

text \<open>
  \<^verbatim>\<open>xs[i]\<close> on a list: position \<open>i\<close> from the front, or position \<open>- i\<close> from the
  back when \<open>i\<close> is negative; outside the list the subscript raises.
\<close>

definition py_index :: "'a list \<Rightarrow> int \<Rightarrow> 'a res" where
  "py_index xs i =
     (if 0 \<le> i then
        (if nat i < length xs then Inr (xs ! nat i) else Inl IndexError)
      else if nat (- i) \<le> length xs then Inr (xs ! (length xs - nat (- i)))
      else Inl IndexError)"

text \<open>
  The body of the route \<^verbatim>\<open>/epochs\<close> on the list that \<^verbatim>\<open>format_data\<close> returned.
  \<open>limit_arg\<close> and \<open>offset_arg\<close> are the query parameters after conversion by
  \<^verbatim>\<open>type=int\<close>: \<open>None\<close> when the parameter is absent or no integer.
\<close>

definition get_epochs :: "int option \<Rightarrow> int option \<Rightarrow> pyval list \<Rightarrow> pyval list" where
  "get_epochs limit_arg offset_arg formatted_data =
     (let limit = limit_arg;
          offset = (case offset_arg of None \<Rightarrow> 0 | Some k \<Rightarrow> k)
      in case limit of
           Some l \<Rightarrow> py_slice formatted_data offset (Some (offset + l))
         | None \<Rightarrow> py_slice formatted_data offset None)"

text \<open>
  \<^verbatim>\<open>s.replace(old, new)\<close>: the occurrences of \<open>old\<close> are replaced from left to right
  without overlap; the empty \<open>old\<close> matches before every character and at the end.
\<close>

function py_replace :: "string \<Rightarrow> string \<Rightarrow> string \<Rightarrow> string" where
  "py_replace old new [] = (if old = [] then new else [])"
| "py_replace old new (c # cs) =
     (if old = [] then new @ c # py_replace old new cs
      else if take (length old) (c # cs) = old
      then new @ py_replace old new (drop (length old) (c # cs))
      else c # py_replace old new cs)"
  by pat_completeness auto
termination
  by (relation "measure (\<lambda>(old, new, s). length s)") auto

text \<open>The decoding of the path segment in the routes under \<^verbatim>\<open>/epochs/<epoch>\<close>.\<close>

definition decode_epoch :: "string \<Rightarrow> string" where
  "decode_epoch epoch = py_replace ''_'' '':'' (py_replace ''__'' '' '' epoch)"

text \<open>
  The encoding that the tests apply to a timestamp before they put it in the path:
  \<^verbatim>\<open>.replace(" ", "__").replace(":", "_")\<close>.
\<close>

definition encode_epoch :: "string \<Rightarrow> string" where
  "encode_epoch timestamp = py_replace '':'' ''_'' (py_replace '' '' ''__'' timestamp)"

definition not_found :: "pyval \<times> nat" where
  "not_found = (PDict [(''error'', PStr ''Epoch not found'')], 404)"

text \<open>
  The scan of \<^verbatim>\<open>get_epoch\<close>: the response is a body with its HTTP status, 200 for a
  returned dictionary.
\<close>

fun get_epoch_scan :: "string \<Rightarrow> pyval list \<Rightarrow> (pyval \<times> nat) res" where
  "get_epoch_scan epoch [] = Inr not_found"
| "get_epoch_scan epoch (data # rest) =
     py_bind (py_getitem data ''timestamp'') (\<lambda>ts.
       if ts = PStr epoch then Inr (data, 200) else get_epoch_scan epoch rest)"

definition get_epoch :: "string \<Rightarrow> pyval list \<Rightarrow> (pyval \<times> nat) res" where
  "get_epoch epoch formatted_data = get_epoch_scan (decode_epoch epoch) formatted_data"

section \<open>Notions used to state the properties\<close>

definition is_ok :: "'a res \<Rightarrow> bool" where
  "is_ok m = (case m of Inl _ \<Rightarrow> False | Inr _ \<Rightarrow> True)"

text \<open>The three exceptions that the loop of \<^verbatim>\<open>format_data\<close> catches.\<close>

definition caught :: "pyerr \<Rightarrow> bool" where
  "caught e = (e = KeyError \<or> e = ValueError \<or> e = TypeError)"

definition numeric_keys :: "string list" where
  "numeric_keys = [''X'', ''Y'', ''Z'', ''X_DOT'', ''Y_DOT'', ''Z_DOT'']"

definition parsed_epoch :: "(string \<Rightarrow> datetime option) \<Rightarrow> pyval \<Rightarrow> datetime res" where
  "parsed_epoch pe sv = py_bind (py_getitem sv ''EPOCH'') (py_strptime pe)"

text \<open>
  A raw entry is well formed when its \<^verbatim>\<open>EPOCH\<close> is present and parses and each of the
  six numeric fields is present, holds a \<^verbatim>\<open>#text\<close> and parses.
\<close>

definition well_formed ::
  "(string \<Rightarrow> datetime option) \<Rightarrow> (string \<Rightarrow> real option) \<Rightarrow> pyval \<Rightarrow> bool" where
  "well_formed pe pf sv =
     (is_ok (parsed_epoch pe sv) \<and> list_all (\<lambda>k. is_ok (text_float pf sv k)) numeric_keys)"

text \<open>The record of a well-formed entry.\<close>

definition normalized ::
  "(string \<Rightarrow> datetime option) \<Rightarrow> (string \<Rightarrow> real option) \<Rightarrow> pyval \<Rightarrow> pyval" where
  "normalized pe pf sv =
     PDict ((''timestamp'', PStr (strftime (projr (parsed_epoch pe sv)))) #
            zip [''x'', ''y'', ''z'', ''dx'', ''dy'', ''dz'']
                (map (\<lambda>k. PNum (projr (text_float pf sv k))) numeric_keys))"

text \<open>
  The form \<^verbatim>\<open>YYYY-MM-DD hh:mm:ss.ffffff\<close>: with every digit replaced by 9, the string
  is the pattern itself.
\<close>

definition shape :: "string \<Rightarrow> string" where
  "shape s = map (\<lambda>c. if is_digit c then CHR ''9'' else c) s"

definition canonical_form :: "string \<Rightarrow> bool" where
  "canonical_form s = (shape s = ''9999-99-99 99:99:99.999999'')"

text \<open>
  A document whose state vectors are the first two of the test data, one entry without
  \<^verbatim>\<open>Z_DOT\<close>, one entry whose \<^verbatim>\<open>EPOCH\<close> names day 400, and one entry that is no
  dictionary.
\<close>

definition damaged_state_vectors :: "pyval list" where
  "damaged_state_vectors =
     [test_state_vector ''1000-001T00:00:00.000Z'' [''1'', ''-2'', ''3'', ''4'', ''-5'', ''6''],
      test_state_vector ''1000-002T00:00:00.000Z'' [''1'', ''-2'', ''3'', ''4'', ''-5''],
      test_state_vector ''1000-400T00:00:00.000Z'' [''1'', ''-2'', ''3'', ''4'', ''-5'', ''6''],
      PStr ''EPOCH'',
      test_state_vector ''1000-002T00:00:00.000Z'' [''-7'', ''8'', ''-9'', ''10'', ''-11'', ''12'']]"

definition damaged_data_dict :: pyval where
  "damaged_data_dict =
     PDict [(''ndm'', PDict [(''oem'', PDict [(''body'', PDict [(''segment'', PDict
       [(''data'', PDict [(''stateVector'', PList damaged_state_vectors)])])])])])]"

text \<open>
  The GeoLocation of the specification's data model: a mapping with the fields
  \<^verbatim>\<open>lat\<close>, \<^verbatim>\<open>lon\<close>, \<^verbatim>\<open>alt\<close> and \<^verbatim>\<open>place\<close>.
\<close>

definition geolocation_mapping :: "pyval \<Rightarrow> bool" where
  "geolocation_mapping v =
     (case v of
        PDict kvs \<Rightarrow> list_all (\<lambda>k. map_of kvs k \<noteq> None) [''lat'', ''lon'', ''alt'', ''place'']
      | _ \<Rightarrow> False)"


text \<open>
  The epoch of the repository's test of \<^verbatim>\<open>cartesian_to_geo\<close>, with library calls that
  answer it: a recogniser for its timestamp, an instant, a transform that succeeds, a
  transform that raises, and a geocoder that finds nothing.
\<close>

definition sample_epoch :: pyval where
  "sample_epoch =
     PDict [(''timestamp'', PStr ''2024-03-17 12:00:00.000000''),
            (''x'', PNum 5000), (''y'', PNum 2000), (''z'', PNum 3000)]"

definition sample_pc :: "string \<Rightarrow> datetime option" where
  "sample_pc s =
     (if s = ''2024-03-17 12:00:00.000000''
      then Some \<lparr>year = 2024, month = 3, day = 17, hour = 12, minute = 0, second = 0,
                 microsecond = 0\<rparr>
      else None)"

definition sample_instant :: "datetime \<Rightarrow> nat res" where
  "sample_instant dt = Inr 1710676800"

definition sample_transform :: "nat \<Rightarrow> pyval \<Rightarrow> pyval \<Rightarrow> pyval \<Rightarrow> earth_location res" where
  "sample_transform t x y z = Inr \<lparr>lat_deg = 29, lon_deg = 120, height_value = 214\<rparr>"

definition failing_transform :: "nat \<Rightarrow> pyval \<Rightarrow> pyval \<Rightarrow> pyval \<Rightarrow> earth_location res" where
  "failing_transform t x y z = Inl ValueError"

definition sample_reverse :: "real \<Rightarrow> real \<Rightarrow> string option res" where
  "sample_reverse la lo = Inr None"




text \<open>
  A string survives the trip through the path when it holds no underscore and no colon
  is followed by a colon or a blank.
\<close>

fun url_safe :: "string \<Rightarrow> bool" where
  "url_safe [] = True"
| "url_safe (c # cs) =
     (c \<noteq> CHR ''_'' \<and>
      (c = CHR '':'' \<longrightarrow> (case cs of [] \<Rightarrow> True | d # _ \<Rightarrow> d \<noteq> CHR '':'' \<and> d \<noteq> CHR '' '')) \<and>
      url_safe cs)"

section \<open>The normalizer drops what it cannot parse\<close>

lemma py_getitem_caught: "py_getitem v k = Inl e \<Longrightarrow> caught e"
  by (cases v) (auto simp: caught_def split: option.splits)

lemma py_strptime_caught: "py_strptime pe v = Inl e \<Longrightarrow> caught e"
  by (auto simp: py_strptime_def caught_def split: pyval.splits option.splits if_splits)

lemma py_float_caught: "py_float pf v = Inl e \<Longrightarrow> caught e"
  by (auto simp: py_float_def caught_def split: pyval.splits option.splits)

lemma text_float_caught: "text_float pf sv k = Inl e \<Longrightarrow> caught e"
  by (auto simp: text_float_def py_bind_def split: sum.splits
           dest: py_getitem_caught py_float_caught)

lemma parsed_epoch_caught: "parsed_epoch pe sv = Inl e \<Longrightarrow> caught e"
  by (auto simp: parsed_epoch_def py_bind_def split: sum.splits
           dest: py_getitem_caught py_strptime_caught)

lemma state_vector_record_parsed:
  "state_vector_record pe pf sv =
     py_bind (parsed_epoch pe sv) (\<lambda>dt.
     py_bind (text_float pf sv ''X'') (\<lambda>x.
     py_bind (text_float pf sv ''Y'') (\<lambda>y.
     py_bind (text_float pf sv ''Z'') (\<lambda>z.
     py_bind (text_float pf sv ''X_DOT'') (\<lambda>dx.
     py_bind (text_float pf sv ''Y_DOT'') (\<lambda>dy.
     py_bind (text_float pf sv ''Z_DOT'') (\<lambda>dz.
       Inr (PDict [(''timestamp'', PStr (strftime dt)),
                   (''x'', PNum x), (''y'', PNum y), (''z'', PNum z),
                   (''dx'', PNum dx), (''dy'', PNum dy), (''dz'', PNum dz)]))))))))"
  by (simp add: state_vector_record_def parsed_epoch_def py_bind_def split: sum.splits)

lemma state_vector_record_well_formed:
  "well_formed pe pf sv \<Longrightarrow> state_vector_record pe pf sv = Inr (normalized pe pf sv)"
  unfolding state_vector_record_parsed
  by (auto simp: well_formed_def normalized_def numeric_keys_def is_ok_def py_bind_def
           split: sum.splits)

lemma state_vector_record_malformed:
  "\<not> well_formed pe pf sv \<Longrightarrow> \<exists>e. state_vector_record pe pf sv = Inl e \<and> caught e"
  unfolding state_vector_record_parsed
  by (auto simp: well_formed_def numeric_keys_def is_ok_def py_bind_def
           split: sum.splits dest: text_float_caught parsed_epoch_caught)

lemma format_data_loop_value:
  "snd (format_data_loop pe pf svs acc logs) =
     Inr (acc @ map (normalized pe pf) (filter (well_formed pe pf) svs))"
proof (induction svs arbitrary: acc logs)
  case Nil
  show ?case by simp
next
  case (Cons sv svs)
  show ?case
  proof (cases "well_formed pe pf sv")
    case True
    then show ?thesis
      using Cons.IH by (simp add: state_vector_record_well_formed)
  next
    case False
    then obtain e where "state_vector_record pe pf sv = Inl e" "caught e"
      using state_vector_record_malformed by blast
    with False show ?thesis
      using Cons.IH by (auto simp: caught_def)
  qed
qed



declare digits.simps [simp del]

lemma is_digit_digit_char:
  assumes "d < 10"
  shows "is_digit (digit_char d)"
proof -
  have "''0123456789'' ! d \<in> set ''0123456789''"
    using assms by (intro nth_mem) simp
  then show ?thesis by (simp only: is_digit_def digit_char_def)
qed

lemma digits_all_digit: "list_all is_digit (digits n)"
proof (induction n rule: digits.induct)
  case (1 n)
  show ?case
  proof (cases "n < 10")
    case True
    then show ?thesis by (subst digits.simps) (simp add: is_digit_digit_char)
  next
    case False
    with 1 show ?thesis by (subst digits.simps) (simp add: is_digit_digit_char)
  qed
qed

lemma length_digits: "0 < w \<Longrightarrow> n < 10 ^ w \<Longrightarrow> length (digits n) \<le> w"
proof (induction w arbitrary: n)
  case 0
  then show ?case by simp
next
  case (Suc w)
  show ?case
  proof (cases "n < 10")
    case True
    then show ?thesis by (subst digits.simps) simp
  next
    case False
    with Suc.prems have w: "0 < w" by (cases w) auto
    from Suc.prems have "n div 10 < 10 ^ w"
      by (simp add: less_mult_imp_div_less mult.commute)
    with Suc.IH w have "length (digits (n div 10)) \<le> w" by blast
    with False show ?thesis by (subst digits.simps) simp
  qed
qed

lemma shape_digits: "list_all is_digit ds \<Longrightarrow> shape ds = replicate (length ds) (CHR ''9'')"
  by (induction ds) (auto simp: shape_def)

lemma shape_zero_pad:
  assumes "0 < w" "n < 10 ^ w"
  shows "shape (zero_pad w n) = replicate w (CHR ''9'')"
proof -
  have len: "length (digits n) \<le> w" using assms by (rule length_digits)
  have z: "is_digit (CHR ''0'')" by (simp add: is_digit_def)
  have "list_all is_digit (zero_pad w n)"
    using z digits_all_digit [of n] by (auto simp: zero_pad_def list_all_iff)
  moreover have "length (zero_pad w n) = w" using len by (simp add: zero_pad_def)
  ultimately show ?thesis using shape_digits by fastforce
qed

lemma shape_append: "shape (a @ b) = shape a @ shape b"
  by (simp add: shape_def)

lemma shape_Cons: "shape (c # cs) = (if is_digit c then CHR ''9'' else c) # shape cs"
  by (simp add: shape_def)

lemma days_in_month_le: "days_in_month y m \<le> 31"
  by (simp add: days_in_month_def)

lemma strftime_canonical:
  assumes "valid_datetime dt"
  shows "canonical_form (strftime dt)"
proof -
  have r2: "replicate 2 (CHR ''9'') = ''99''"
   and r4: "replicate 4 (CHR ''9'') = ''9999''"
   and r6: "replicate 6 (CHR ''9'') = ''999999''"
    by (simp_all add: eval_nat_numeral)
  have d: "day dt < 10 ^ 2"
    using assms days_in_month_le [of "year dt" "month dt"] by (simp add: valid_datetime_def)
  have "shape (zero_pad 4 (year dt)) = ''9999''"
    using assms unfolding r4 [symmetric]
    by (intro shape_zero_pad) (simp_all add: valid_datetime_def)
  moreover have "shape (zero_pad 2 (month dt)) = ''99''"
    using assms unfolding r2 [symmetric]
    by (intro shape_zero_pad) (simp_all add: valid_datetime_def)
  moreover have "shape (zero_pad 2 (day dt)) = ''99''"
    using d unfolding r2 [symmetric] by (intro shape_zero_pad) simp_all
  moreover have "shape (zero_pad 2 (hour dt)) = ''99''"
    using assms unfolding r2 [symmetric]
    by (intro shape_zero_pad) (simp_all add: valid_datetime_def)
  moreover have "shape (zero_pad 2 (minute dt)) = ''99''"
    using assms unfolding r2 [symmetric]
    by (intro shape_zero_pad) (simp_all add: valid_datetime_def)
  moreover have "shape (zero_pad 2 (second dt)) = ''99''"
    using assms unfolding r2 [symmetric]
    by (intro shape_zero_pad) (simp_all add: valid_datetime_def)
  moreover have "shape (zero_pad 6 (microsecond dt)) = ''999999''"
    using assms unfolding r6 [symmetric]
    by (intro shape_zero_pad) (simp_all add: valid_datetime_def)
  ultimately show ?thesis
    by (simp add: canonical_form_def strftime_def shape_append shape_Cons is_digit_def)
qed

lemma parsed_epoch_valid: "parsed_epoch pe sv = Inr dt \<Longrightarrow> valid_datetime dt"
  by (auto simp: parsed_epoch_def py_bind_def py_strptime_def
           split: sum.splits pyval.splits option.splits if_splits)

lemma normalized_timestamp:
  assumes "well_formed pe pf sv"
  shows "\<exists>ts. py_getitem (normalized pe pf sv) ''timestamp'' = Inr (PStr ts) \<and> canonical_form ts"
proof -
  from assms obtain dt where dt: "parsed_epoch pe sv = Inr dt"
    by (auto simp: well_formed_def is_ok_def split: sum.splits)
  then have "canonical_form (strftime dt)"
    using parsed_epoch_valid strftime_canonical by blast
  with dt show ?thesis by (simp add: normalized_def)
qed


subsection \<open>The normalizer on a damaged document\<close>

lemma strptime_oem_samples:
  "strptime_oem ''1000-001T00:00:00.000Z'' =
     Some \<lparr>year = 1000, month = 1, day = 1, hour = 0, minute = 0, second = 0, microsecond = 0\<rparr>"
  "strptime_oem ''1000-002T00:00:00.000Z'' =
     Some \<lparr>year = 1000, month = 1, day = 2, hour = 0, minute = 0, second = 0, microsecond = 0\<rparr>"
  "strptime_oem ''1000-400T00:00:00.000Z'' = None"
  by code_simp+

lemma valid_datetime_samples:
  "valid_datetime \<lparr>year = 1000, month = 1, day = 1, hour = 0, minute = 0, second = 0, microsecond = 0\<rparr>"
  "valid_datetime \<lparr>year = 1000, month = 1, day = 2, hour = 0, minute = 0, second = 0, microsecond = 0\<rparr>"
  by (simp_all add: valid_datetime_def days_in_month_def)

lemma strftime_samples:
  "strftime \<lparr>year = 1000, month = 1, day = 1, hour = 0, minute = 0, second = 0, microsecond = 0\<rparr>
     = ''1000-01-01 00:00:00.000000''"
  "strftime \<lparr>year = 1000, month = 1, day = 2, hour = 0, minute = 0, second = 0, microsecond = 0\<rparr>
     = ''1000-01-02 00:00:00.000000''"
  by code_simp+

lemma float_literal_samples:
  "float_literal ''1'' = Some 1" "float_literal ''-2'' = Some (- 2)"
  "float_literal ''3'' = Some 3" "float_literal ''4'' = Some 4"
  "float_literal ''-5'' = Some (- 5)" "float_literal ''6'' = Some 6"
  "float_literal ''-7'' = Some (- 7)" "float_literal ''8'' = Some 8"
  "float_literal ''-9'' = Some (- 9)" "float_literal ''10'' = Some 10"
  "float_literal ''-11'' = Some (- 11)" "float_literal ''12'' = Some 12"
  by code_simp+

lemmas sample_evaluation =
  strptime_oem_samples valid_datetime_samples strftime_samples float_literal_samples
  test_state_vector_def parsed_epoch_def text_float_def py_strptime_def py_float_def py_bind_def

lemma damaged_well_formed:
  "filter (well_formed strptime_oem float_literal) damaged_state_vectors =
     [test_state_vector ''1000-001T00:00:00.000Z'' [''1'', ''-2'', ''3'', ''4'', ''-5'', ''6''],
      test_state_vector ''1000-002T00:00:00.000Z'' [''-7'', ''8'', ''-9'', ''10'', ''-11'', ''12'']]"
  by (simp add: damaged_state_vectors_def well_formed_def numeric_keys_def is_ok_def
                sample_evaluation del: One_nat_def)

lemma damaged_normalized:
  "[normalized strptime_oem float_literal
      (test_state_vector ''1000-001T00:00:00.000Z'' [''1'', ''-2'', ''3'', ''4'', ''-5'', ''6'']),
    normalized strptime_oem float_literal
      (test_state_vector ''1000-002T00:00:00.000Z'' [''-7'', ''8'', ''-9'', ''10'', ''-11'', ''12''])]
   = take 2 test_formatted_data"
  by (simp add: normalized_def numeric_keys_def test_formatted_data_def test_record_def
                sample_evaluation del: One_nat_def)


section \<open>Extractors on a document without the key path\<close>

lemma extractors_missing_key:
  "py_path data_dict [''ndm'', ''oem'', ''header''] = Inl KeyError \<Longrightarrow>
     format_header data_dict = ([missing_key_msg], Inr (PDict []))"
  "py_path data_dict [''ndm'', ''oem'', ''body'', ''segment'', ''data'', ''COMMENT''] = Inl KeyError \<Longrightarrow>
     format_comment data_dict = ([missing_key_msg], Inr (PList []))"
  "py_path data_dict [''ndm'', ''oem'', ''body'', ''segment'', ''metadata''] = Inl KeyError \<Longrightarrow>
     format_metadata data_dict = ([missing_key_msg], Inr (PDict []))"
  "py_path data_dict [''ndm'', ''oem'', ''body'', ''segment'', ''data'', ''stateVector''] = Inl KeyError \<Longrightarrow>
     format_data pe pf data_dict = ([missing_key_msg], Inr [])"
  by (simp_all add: format_header_def format_comment_def format_metadata_def format_data_def)

text \<open>
  Claim C2. The claim is that each of the four extractors returns its empty value and
  never raises when the key path is missing, also for the absent document that a failed
  fetch hands over. On \<^verbatim>\<open>None\<close>, and on the document \<^verbatim>\<open>{'ndm': None}\<close> of an empty
  root element, the first subscript that meets \<^verbatim>\<open>None\<close> raises \<^verbatim>\<open>TypeError\<close>, which
  the handler for \<^verbatim>\<open>KeyError\<close> does not catch: all four extractors raise.
\<close>

theorem extractors_raise_on_absent_document:
  "snd (format_header PNone) = Inl TypeError
   \<and> snd (format_comment PNone) = Inl TypeError
   \<and> snd (format_metadata PNone) = Inl TypeError
   \<and> snd (format_data pe pf PNone) = Inl TypeError
   \<and> snd (format_header (PDict [(''ndm'', PNone)])) = Inl TypeError
   \<and> snd (format_comment (PDict [(''ndm'', PNone)])) = Inl TypeError
   \<and> snd (format_metadata (PDict [(''ndm'', PNone)])) = Inl TypeError
   \<and> snd (format_data pe pf (PDict [(''ndm'', PNone)])) = Inl TypeError"
  by (simp add: format_header_def format_comment_def format_metadata_def format_data_def
                py_bind_def)

section \<open>Fetcher\<close>

lemma fetch_data_bad_status:
  "status_code response \<noteq> 200 \<Longrightarrow>
     fetch_data xml_parse (GetReturns response) = ([fetch_msg], Inr PNone)"
  by (simp add: fetch_data_def request_exception_handler_def read_local_def)

lemma fetch_data_malformed_xml:
  "status_code response = 200 \<Longrightarrow> xml_parse (text_body response) = None \<Longrightarrow>
     fetch_data xml_parse (GetReturns response) = ([xml_msg], Inr PNone)"
  by (simp add: fetch_data_def expat_error_handler_def read_local_def)

text \<open>
  Claim C3. The claim is that every failure of \<^verbatim>\<open>fetch_data\<close> is logged and gives an
  absent result. When \<^verbatim>\<open>requests.get\<close> itself raises, the local variable
  \<^verbatim>\<open>response\<close> is unbound in the handler that formats it into the log line: nothing
  is logged and \<^verbatim>\<open>UnboundLocalError\<close> leaves the function.
\<close>

theorem fetch_data_transport_error_raises:
  "fetch_data xml_parse GetRaises = ([], Inl UnboundLocalError)"
  by (simp add: fetch_data_def request_exception_handler_def read_local_def)

section \<open>Geodetic converter\<close>

text \<open>
  Claim C6. When the timestamp and the position of the epoch are read and the transform
  raises an exception other than \<^verbatim>\<open>KeyError\<close> and \<^verbatim>\<open>TypeError\<close>, the bare handler
  logs and falls through, \<^verbatim>\<open>ears\<close> is unbound, and the function raises
  \<^verbatim>\<open>UnboundLocalError\<close> instead of returning.
\<close>

theorem cartesian_to_geo_unbound_ears:
  assumes "py_bind (py_getitem epoch ''timestamp'') (\<lambda>ts. py_bind (py_strptime pc ts) instant)
             = Inr t"
    and "py_getitem epoch ''x'' = Inr x" "py_getitem epoch ''y'' = Inr y"
        "py_getitem epoch ''z'' = Inr z"
    and "transform t x y z = Inl e" "e \<noteq> KeyError" "e \<noteq> TypeError"
  shows "cartesian_to_geo pc instant transform reverse epoch
           = ([transform_msg], Inl UnboundLocalError)"
  using assms
  by (simp add: cartesian_to_geo_def geo_of_ears_def read_local_def py_bind_def)

theorem cartesian_to_geo_unbound_ears_witness:
  "cartesian_to_geo sample_pc sample_instant failing_transform sample_reverse sample_epoch
     = ([transform_msg], Inl UnboundLocalError)"
proof -
  have v: "valid_datetime \<lparr>year = 2024, month = 3, day = 17, hour = 12, minute = 0, second = 0,
                 microsecond = 0\<rparr>"
    by (simp add: valid_datetime_def days_in_month_def)
  have 1: "py_bind (py_getitem sample_epoch ''timestamp'')
             (\<lambda>ts. py_bind (py_strptime sample_pc ts) sample_instant) = Inr 1710676800"
    using v by (simp add: sample_epoch_def sample_pc_def sample_instant_def py_strptime_def py_bind_def)
  have 2: "py_getitem sample_epoch ''x'' = Inr (PNum 5000)"
          "py_getitem sample_epoch ''y'' = Inr (PNum 2000)"
          "py_getitem sample_epoch ''z'' = Inr (PNum 3000)"
    by (simp_all add: sample_epoch_def)
  have 3: "failing_transform 1710676800 (PNum 5000) (PNum 2000) (PNum 3000) = Inl ValueError"
    by (simp add: failing_transform_def)
  show ?thesis
    using cartesian_to_geo_unbound_ears
            [of sample_epoch sample_pc sample_instant 1710676800 "PNum 5000" "PNum 2000"
                "PNum 3000" failing_transform ValueError sample_reverse] 1 2 3
    by simp
qed

lemma cartesian_to_geo_success:
  assumes "py_bind (py_getitem epoch ''timestamp'') (\<lambda>ts. py_bind (py_strptime pc ts) instant)
             = Inr t"
    and "py_getitem epoch ''x'' = Inr x" "py_getitem epoch ''y'' = Inr y"
        "py_getitem epoch ''z'' = Inr z"
    and "transform t x y z = Inr ears"
    and "lon = (if lon_deg ears + 90 - 15 > 180 then lon_deg ears + 90 - 15 - 360
                else lon_deg ears + 90 - 15)"
    and "reverse (lat_deg ears) lon = Inr geoloc"
  shows "cartesian_to_geo pc instant transform reverse epoch
           = ([], Inr (PList [PDict
                [(''lat'', PNum (lat_deg ears)), (''lon'', PNum lon),
                 (''alt'', PNum (height_value ears)),
                 (''geoloc'', PStr (case geoloc of None \<Rightarrow> ''Over Ocean or Unknown''
                                    | Some address \<Rightarrow> address))]]))"
proof (cases "lon_deg ears + 90 - 15 > 180")
  case True
  with assms show ?thesis
    by (simp add: cartesian_to_geo_def geo_of_ears_def read_local_def py_bind_def Let_def)
next
  case False
  with assms show ?thesis
    by (simp add: cartesian_to_geo_def geo_of_ears_def read_local_def py_bind_def Let_def)
qed

lemma sample_epoch_reads:
  "py_bind (py_getitem sample_epoch ''timestamp'')
     (\<lambda>ts. py_bind (py_strptime sample_pc ts) sample_instant) = Inr 1710676800"
  "py_getitem sample_epoch ''x'' = Inr (PNum 5000)"
  "py_getitem sample_epoch ''y'' = Inr (PNum 2000)"
  "py_getitem sample_epoch ''z'' = Inr (PNum 3000)"
  by (simp_all add: sample_epoch_def sample_pc_def sample_instant_def py_strptime_def
                    py_bind_def valid_datetime_def days_in_month_def)

lemma sample_geo:
  "cartesian_to_geo sample_pc sample_instant sample_transform sample_reverse sample_epoch
     = ([], Inr (PList [PDict
          [(''lat'', PNum 29), (''lon'', PNum (- 165)), (''alt'', PNum 214),
           (''geoloc'', PStr ''Over Ocean or Unknown'')]]))"
  using cartesian_to_geo_success
          [of sample_epoch sample_pc sample_instant 1710676800 "PNum 5000" "PNum 2000" "PNum 3000"
              sample_transform "\<lparr>lat_deg = 29, lon_deg = 120, height_value = 214\<rparr>" "- 165"
              sample_reverse None]
        sample_epoch_reads
  by (simp add: sample_transform_def sample_reverse_def)

text \<open>
  Claim C4, as stated: \<^verbatim>\<open>cartesian_to_geo\<close> returns a mapping with the fields
  \<^verbatim>\<open>lat\<close>, \<^verbatim>\<open>lon\<close>, \<^verbatim>\<open>alt\<close> and \<^verbatim>\<open>place\<close>. On the epoch of the repository's test,
  with a geocoder that finds nothing, the function returns a list, and the mapping in
  that list has no field \<^verbatim>\<open>place\<close>.
\<close>

theorem cartesian_to_geo_no_place_counterexample:
  "snd (cartesian_to_geo sample_pc sample_instant sample_transform sample_reverse sample_epoch)
     = Inr (PList [PDict
          [(''lat'', PNum 29), (''lon'', PNum (- 165)), (''alt'', PNum 214),
           (''geoloc'', PStr ''Over Ocean or Unknown'')]])
   \<and> \<not> geolocation_mapping (PList [PDict
          [(''lat'', PNum 29), (''lon'', PNum (- 165)), (''alt'', PNum 214),
           (''geoloc'', PStr ''Over Ocean or Unknown'')]])
   \<and> \<not> geolocation_mapping (PDict
          [(''lat'', PNum 29), (''lon'', PNum (- 165)), (''alt'', PNum 214),
           (''geoloc'', PStr ''Over Ocean or Unknown'')])"
  by (simp add: sample_geo geolocation_mapping_def) 

text \<open>
  Claim C4, amended. When the timestamp and the position of the record are read, the
  transform succeeds and the geocoder returns, \<^verbatim>\<open>cartesian_to_geo\<close> logs nothing and
  returns a list of one mapping with the fields \<^verbatim>\<open>lat\<close>, \<^verbatim>\<open>lon\<close> (the corrected
  longitude), \<^verbatim>\<open>alt\<close> and \<^verbatim>\<open>geoloc\<close>; \<^verbatim>\<open>geoloc\<close> is the address that the geocoder
  found, and the string \<^verbatim>\<open>Over Ocean or Unknown\<close> when it found nothing.
\<close>

theorem cartesian_to_geo_returns_geoloc_list:
  assumes "py_bind (py_getitem epoch ''timestamp'') (\<lambda>ts. py_bind (py_strptime pc ts) instant)
             = Inr t"
    and "py_getitem epoch ''x'' = Inr x" "py_getitem epoch ''y'' = Inr y"
        "py_getitem epoch ''z'' = Inr z"
    and "transform t x y z = Inr ears"
    and "lon = (if lon_deg ears + 90 - 15 > 180 then lon_deg ears + 90 - 15 - 360
                else lon_deg ears + 90 - 15)"
    and "reverse (lat_deg ears) lon = Inr geoloc"
  shows "\<exists>kvs. cartesian_to_geo pc instant transform reverse epoch = ([], Inr (PList [PDict kvs]))
           \<and> map fst kvs = [''lat'', ''lon'', ''alt'', ''geoloc'']
           \<and> map_of kvs ''lon'' = Some (PNum lon)
           \<and> (geoloc = None \<longrightarrow> map_of kvs ''geoloc'' = Some (PStr ''Over Ocean or Unknown''))
           \<and> (\<forall>address. geoloc = Some address \<longrightarrow> map_of kvs ''geoloc'' = Some (PStr address))"
  using cartesian_to_geo_success [of epoch pc instant t x y z transform ears lon reverse geoloc] assms
  by auto

theorem cartesian_to_geo_returns_geoloc_list_witness:
  "\<exists>kvs. cartesian_to_geo sample_pc sample_instant sample_transform sample_reverse sample_epoch
            = ([], Inr (PList [PDict kvs]))
         \<and> map fst kvs = [''lat'', ''lon'', ''alt'', ''geoloc'']
         \<and> map_of kvs ''lon'' = Some (PNum (- 165))
         \<and> map_of kvs ''geoloc'' = Some (PStr ''Over Ocean or Unknown'')"
  using cartesian_to_geo_returns_geoloc_list
          [of sample_epoch sample_pc sample_instant 1710676800 "PNum 5000" "PNum 2000" "PNum 3000"
              sample_transform "\<lparr>lat_deg = 29, lon_deg = 120, height_value = 214\<rparr>" "- 165"
              sample_reverse None]
        sample_epoch_reads
  by (auto simp: sample_transform_def sample_reverse_def)



section \<open>Average speed\<close>










section \<open>Slices of the record list\<close>

lemma py_slice_from: "0 \<le> i \<Longrightarrow> py_slice xs i None = drop (nat i) xs"
  by (simp add: py_slice_def slice_bound_def Let_def min_def)

lemma py_slice_between:
  assumes "0 \<le> i" "0 \<le> n"
  shows "py_slice xs i (Some (i + n)) = take (nat n) (drop (nat i) xs)"
proof -
  have sum: "nat (i + n) = nat i + nat n"
    using assms by (simp add: nat_add_distrib)
  have "take (min (nat i + nat n) (length xs) - min (nat i) (length xs))
             (drop (min (nat i) (length xs)) xs)
        = take (nat n) (drop (nat i) xs)"
  proof (cases "nat i \<le> length xs")
    case True
    have "min (nat i + nat n) (length xs) - nat i = min (nat n) (length xs - nat i)"
      using True by arith
    moreover have "take (min (nat n) (length (drop (nat i) xs))) (drop (nat i) xs)
                   = take (nat n) (drop (nat i) xs)"
      by (simp add: min_def)
    ultimately show ?thesis using True by (simp add: min_absorb1)
  next
    case False
    then show ?thesis by simp
  qed
  with assms sum show ?thesis
    by (simp add: py_slice_def slice_bound_def Let_def)
qed

lemma index_window:
  "(if i < length (take l (drop k xs)) then Inr (take l (drop k xs) ! i) else Inl IndexError)
   = (if i + k < length (take (l + k) xs) then Inr (take (l + k) xs ! (i + k))
      else (Inl IndexError :: 'a res))"
  by (auto simp: less_diff_conv add.commute)

lemma py_index_nonneg:
  "0 \<le> i \<Longrightarrow> py_index xs i = (if nat i < length xs then Inr (xs ! nat i) else Inl IndexError)"
  by (simp add: py_index_def)

lemma get_epochs_window:
  "0 \<le> limit \<Longrightarrow> 0 \<le> offset \<Longrightarrow>
     get_epochs (Some limit) (Some offset) formatted_data
       = take (nat limit) (drop (nat offset) formatted_data)"
  by (simp add: get_epochs_def py_slice_between)

lemma get_epochs_head:
  "0 \<le> limit \<Longrightarrow> get_epochs (Some limit) None formatted_data = take (nat limit) formatted_data"
  using py_slice_between [of 0 limit formatted_data] by (simp add: get_epochs_def)

text \<open>
  Claim C8. In the route \<^verbatim>\<open>/epochs\<close> the offset defaults to 0 and the limit to the rest
  of the list. For a limit, an offset and an index that are not negative, element
  \<open>i\<close> of the response for the limit and the offset is element \<open>i + offset\<close> of the
  response for the limit plus the offset without offset: both are the same record, or
  both subscripts are out of range. With a positive limit and more records than the
  offset, element 0 of the response is the record at the offset. In particular, element
  0 of the response for limit 5 and offset 2 is element 2 of the response for limit 5.
\<close>

theorem get_epochs_slice_consistent:
  "get_epochs None None formatted_data = formatted_data
   \<and> (0 \<le> offset \<longrightarrow> get_epochs None (Some offset) formatted_data = drop (nat offset) formatted_data)
   \<and> (0 \<le> limit \<longrightarrow> get_epochs (Some limit) None formatted_data = take (nat limit) formatted_data)
   \<and> (0 \<le> limit \<and> 0 \<le> offset \<and> 0 \<le> i \<longrightarrow>
        py_index (get_epochs (Some limit) (Some offset) formatted_data) i
          = py_index (get_epochs (Some (limit + offset)) None formatted_data) (i + offset))
   \<and> (0 < limit \<and> 0 \<le> offset \<and> nat offset < length formatted_data \<longrightarrow>
        py_index (get_epochs (Some limit) (Some offset) formatted_data) 0
          = Inr (formatted_data ! nat offset))
   \<and> (3 \<le> length formatted_data \<longrightarrow>
        py_index (get_epochs (Some 5) (Some 2) formatted_data) 0
          = py_index (get_epochs (Some 5) None formatted_data) 2)"
proof (intro conjI impI)
  show "get_epochs None None formatted_data = formatted_data"
    by (simp add: get_epochs_def py_slice_from)
next
  assume "0 \<le> offset"
  then show "get_epochs None (Some offset) formatted_data = drop (nat offset) formatted_data"
    by (simp add: get_epochs_def py_slice_from)
next
  assume "0 \<le> limit"
  then show "get_epochs (Some limit) None formatted_data = take (nat limit) formatted_data"
    by (rule get_epochs_head)
next
  assume a: "0 \<le> limit \<and> 0 \<le> offset \<and> 0 \<le> i"
  then have "nat (i + offset) = nat i + nat offset" "nat (limit + offset) = nat limit + nat offset"
    by (simp_all add: nat_add_distrib)
  with a show "py_index (get_epochs (Some limit) (Some offset) formatted_data) i
          = py_index (get_epochs (Some (limit + offset)) None formatted_data) (i + offset)"
    using index_window [of "nat i" "nat limit" "nat offset" formatted_data]
    by (simp add: get_epochs_window get_epochs_head py_index_nonneg)
next
  assume "0 < limit \<and> 0 \<le> offset \<and> nat offset < length formatted_data"
  then show "py_index (get_epochs (Some limit) (Some offset) formatted_data) 0
          = Inr (formatted_data ! nat offset)"
    by (simp add: get_epochs_window py_index_nonneg)
next
  assume "3 \<le> length formatted_data"
  then show "py_index (get_epochs (Some 5) (Some 2) formatted_data) 0
          = py_index (get_epochs (Some 5) None formatted_data) 2"
    by (simp add: get_epochs_window get_epochs_head py_index_nonneg)
qed

theorem get_epochs_slice_consistent_witness:
  "py_index (get_epochs (Some 2) (Some 1) test_formatted_data) 1
     = py_index (get_epochs (Some 3) None test_formatted_data) 2
   \<and> py_index (get_epochs (Some 2) (Some 1) test_formatted_data) 0
     = Inr (test_formatted_data ! 1)
   \<and> py_index (get_epochs (Some 5) (Some 2) test_formatted_data) 0
     = py_index (get_epochs (Some 5) None test_formatted_data) 2
   \<and> get_epochs None (Some 3) test_formatted_data = drop 3 test_formatted_data
   \<and> get_epochs (Some 1) None test_formatted_data = take 1 test_formatted_data"
proof -
  have len: "length test_formatted_data = 4"
    by (simp add: test_formatted_data_def)
  show ?thesis
    using get_epochs_slice_consistent [of test_formatted_data 1 2 1]
          get_epochs_slice_consistent [of test_formatted_data 2 5 0]
          get_epochs_slice_consistent [of test_formatted_data 3 1 0]
    by (simp add: len)
qed

section \<open>Lookup of one epoch\<close>

lemma normalized_has_timestamp:
  "py_getitem (normalized pe pf sv) ''timestamp''
     = Inr (PStr (strftime (projr (parsed_epoch pe sv))))"
  by (simp add: normalized_def)

lemma format_data_records:
  assumes "snd (format_data pe pf data_dict) = Inr formatted_data"
  shows "\<exists>svs. formatted_data = map (normalized pe pf) (filter (well_formed pe pf) svs)"
proof (cases "py_path data_dict [''ndm'', ''oem'', ''body'', ''segment'', ''data'', ''stateVector'']")
  case (Inl e)
  with assms have "formatted_data = []"
    by (simp add: format_data_def split: if_splits)
  then have "formatted_data = map (normalized pe pf) (filter (well_formed pe pf) [])"
    by simp
  then show ?thesis ..
next
  case (Inr data_list)
  show ?thesis
  proof (cases "py_iter data_list")
    case (Inl e)
    with Inr assms show ?thesis by (simp add: format_data_def)
  next
    case iter: (Inr svs)
    with Inr assms
    have "formatted_data = map (normalized pe pf) (filter (well_formed pe pf) svs)"
      by (simp add: format_data_def format_data_loop_value)
    then show ?thesis ..
  qed
qed

lemma format_data_timestamps:
  assumes "snd (format_data pe pf data_dict) = Inr formatted_data"
    and "data \<in> set formatted_data"
  shows "\<exists>ts. py_getitem data ''timestamp'' = Inr (PStr ts) \<and> canonical_form ts"
proof -
  from assms(1) obtain svs where
    "formatted_data = map (normalized pe pf) (filter (well_formed pe pf) svs)"
    using format_data_records by blast
  with assms(2) obtain sv where "well_formed pe pf sv" "data = normalized pe pf sv"
    by auto
  then show ?thesis
    using normalized_timestamp by blast
qed

lemma get_epoch_scan_find:
  assumes "\<forall>data \<in> set formatted_data. \<exists>ts. py_getitem data ''timestamp'' = Inr ts"
  shows "get_epoch_scan epoch formatted_data
           = (case find (\<lambda>data. py_getitem data ''timestamp'' = Inr (PStr epoch)) formatted_data of
                Some data \<Rightarrow> Inr (data, 200)
              | None \<Rightarrow> Inr not_found)"
  using assms
proof (induction formatted_data)
  case Nil
  show ?case by simp
next
  case (Cons data rest)
  then obtain ts where "py_getitem data ''timestamp'' = Inr ts" by auto
  with Cons show ?case by (simp add: py_bind_def)
qed

text \<open>
  Claim C9. On the records that \<^verbatim>\<open>format_data\<close> returned, the route \<^verbatim>\<open>/epochs/<epoch>\<close>
  replaces \<^verbatim>\<open>__\<close> by a blank and then \<^verbatim>\<open>_\<close> by a colon in the path segment and
  answers with the first record whose timestamp is equal to the decoded string, with
  status 200; when no record matches, it answers with the mapping that holds
  \<^verbatim>\<open>Epoch not found\<close> under \<^verbatim>\<open>error\<close>, with status 404.
\<close>

theorem get_epoch_first_match:
  assumes "snd (format_data pe pf data_dict) = Inr formatted_data"
  shows "get_epoch epoch formatted_data
           = (case find (\<lambda>data. py_getitem data ''timestamp''
                                 = Inr (PStr (py_replace ''_'' '':'' (py_replace ''__'' '' '' epoch))))
                        formatted_data of
                Some data \<Rightarrow> Inr (data, 200)
              | None \<Rightarrow> Inr (PDict [(''error'', PStr ''Epoch not found'')], 404))"
proof -
  have "\<forall>data \<in> set formatted_data. \<exists>ts. py_getitem data ''timestamp'' = Inr ts"
    using format_data_timestamps [OF assms] by blast
  then show ?thesis
    by (simp add: get_epoch_def decode_epoch_def get_epoch_scan_find not_found_def
             cong: option.case_cong)
qed

lemma format_data_damaged:
  "snd (format_data strptime_oem float_literal damaged_data_dict) = Inr (take 2 test_formatted_data)"
proof -
  have "py_path damaged_data_dict
          [''ndm'', ''oem'', ''body'', ''segment'', ''data'', ''stateVector'']
        = Inr (PList damaged_state_vectors)"
    by (simp add: damaged_data_dict_def py_bind_def)
  then show ?thesis
    by (simp add: format_data_def format_data_loop_value damaged_well_formed damaged_normalized)
qed

lemma decode_epoch_samples:
  "decode_epoch ''1000-01-02__00_00_00.000000'' = ''1000-01-02 00:00:00.000000''"
  "decode_epoch ''2024-03-17__12_00_00.000000'' = ''2024-03-17 12:00:00.000000''"
  by code_simp+

theorem get_epoch_first_match_witness:
  "snd (format_data strptime_oem float_literal damaged_data_dict) = Inr (take 2 test_formatted_data)
   \<and> get_epoch ''1000-01-02__00_00_00.000000'' (take 2 test_formatted_data)
       = Inr (test_record ''1000-01-02 00:00:00.000000'' [-7, 8, -9, 10, -11, 12], 200)
   \<and> get_epoch ''2024-03-17__12_00_00.000000'' (take 2 test_formatted_data)
       = Inr (PDict [(''error'', PStr ''Epoch not found'')], 404)"
  using get_epoch_first_match [OF format_data_damaged, of "''1000-01-02__00_00_00.000000''"]
        get_epoch_first_match [OF format_data_damaged, of "''2024-03-17__12_00_00.000000''"]
        decode_epoch_samples
  by (simp add: format_data_damaged decode_epoch_def test_formatted_data_def test_record_def)

section \<open>The timestamp in the path\<close>

lemma py_replace_char:
  "py_replace [a] new s = concat (map (\<lambda>c. if c = a then new else [c]) s)"
  by (induction s) simp_all

lemma py_replace_char_append:
  "py_replace [a] new (x @ y) = py_replace [a] new x @ py_replace [a] new y"
  by (simp add: py_replace_char)

lemma encode_epoch_Nil: "encode_epoch [] = []"
  by (simp add: encode_epoch_def)

lemma encode_epoch_Cons:
  "encode_epoch (c # cs) =
     (if c = CHR '' '' then ''__'' else if c = CHR '':'' then ''_'' else [c]) @ encode_epoch cs"
  by (simp add: encode_epoch_def py_replace_char)

lemma replace_pair_blank:
  "py_replace ''__'' '' '' (CHR ''_'' # CHR ''_'' # r) = CHR '' '' # py_replace ''__'' '' '' r"
  by simp

lemma replace_pair_other:
  "c \<noteq> CHR ''_'' \<Longrightarrow> py_replace ''__'' '' '' (c # r) = c # py_replace ''__'' '' '' r"
  by simp

lemma replace_pair_single:
  "r = [] \<or> hd r \<noteq> CHR ''_'' \<Longrightarrow>
     py_replace ''__'' '' '' (CHR ''_'' # r) = CHR ''_'' # py_replace ''__'' '' '' r"
  by (cases r) auto

lemma url_safe_tail: "url_safe (c # cs) \<Longrightarrow> url_safe cs"
  by simp

lemma url_safe_no_underscore: "url_safe s \<Longrightarrow> CHR ''_'' \<notin> set s"
  by (induction s) auto

lemma encode_epoch_after_colon:
  assumes "url_safe (CHR '':'' # cs)"
  shows "encode_epoch cs = [] \<or> hd (encode_epoch cs) \<noteq> CHR ''_''"
proof (cases cs)
  case Nil
  then show ?thesis by (simp add: encode_epoch_Nil)
next
  case (Cons d ds)
  with assms have "d \<noteq> CHR '':''" "d \<noteq> CHR '' ''" "d \<noteq> CHR ''_''"
    by auto
  with Cons show ?thesis by (simp add: encode_epoch_Cons)
qed

lemma decode_encode_url_safe: "url_safe s \<Longrightarrow> decode_epoch (encode_epoch s) = s"
proof (induction s)
  case Nil
  show ?case by (simp add: encode_epoch_Nil decode_epoch_def)
next
  case (Cons c cs)
  then have ih: "py_replace ''_'' '':'' (py_replace ''__'' '' '' (encode_epoch cs)) = cs"
    by (simp add: decode_epoch_def)
  have c: "c \<noteq> CHR ''_''" using Cons.prems by simp
  consider (blank) "c = CHR '' ''" | (colon) "c = CHR '':''"
    | (other) "c \<noteq> CHR '' ''" "c \<noteq> CHR '':''"
    by blast
  then show ?case
  proof cases
    case blank
    then have "py_replace ''__'' '' '' (encode_epoch (c # cs))
                 = CHR '' '' # py_replace ''__'' '' '' (encode_epoch cs)"
      by (simp add: encode_epoch_Cons)
    with blank ih show ?thesis
      by (simp add: decode_epoch_def py_replace_char)
  next
    case colon
    with Cons.prems have "encode_epoch cs = [] \<or> hd (encode_epoch cs) \<noteq> CHR ''_''"
      using encode_epoch_after_colon by blast
    then have "py_replace ''__'' '' '' (CHR ''_'' # encode_epoch cs)
                 = CHR ''_'' # py_replace ''__'' '' '' (encode_epoch cs)"
      by (rule replace_pair_single)
    with colon ih show ?thesis
      by (simp add: decode_epoch_def encode_epoch_Cons py_replace_char)
  next
    case other
    with c have "py_replace ''__'' '' '' (encode_epoch (c # cs))
                 = c # py_replace ''__'' '' '' (encode_epoch cs)"
      by (simp add: encode_epoch_Cons)
    with other c ih show ?thesis
      by (simp add: decode_epoch_def py_replace_char)
  qed
qed

lemma url_safe_shape: "url_safe (shape s) = url_safe s"
proof (induction s)
  case Nil
  show ?case by (simp add: shape_def)
next
  case (Cons c cs)
  have d: "is_digit x \<Longrightarrow> x \<noteq> CHR ''_'' \<and> x \<noteq> CHR '':'' \<and> x \<noteq> CHR '' ''" for x
    by (auto simp: is_digit_def)
  show ?case
  proof (cases cs)
    case Nil
    then show ?thesis using d [of c] by (auto simp: shape_Cons shape_def)
  next
    case (Cons e es)
    with Cons.IH show ?thesis
      using d [of c] d [of e] by (auto simp: shape_Cons)
  qed
qed

lemma canonical_form_url_safe: "canonical_form ts \<Longrightarrow> url_safe ts"
proof -
  assume "canonical_form ts"
  then have "url_safe (shape ts)" by (simp add: canonical_form_def)
  then show ?thesis by (simp add: url_safe_shape)
qed

text \<open>
  The form of the timestamp matters: a colon followed by a blank does not survive.
\<close>

lemma encode_decode_blank_after_colon:
  "decode_epoch (encode_epoch ''12: 30'') = ''12 :30''"
  by code_simp

text \<open>
  Claim C10. The timestamp of every record that \<^verbatim>\<open>format_data\<close> returns holds no
  underscore, and replacing each blank by \<^verbatim>\<open>__\<close> and each colon by \<^verbatim>\<open>_\<close>, then
  decoding as the route does (\<^verbatim>\<open>__\<close> to a blank, then \<^verbatim>\<open>_\<close> to a colon), gives the
  timestamp back.
\<close>

theorem epoch_path_roundtrip:
  assumes "snd (format_data pe pf data_dict) = Inr formatted_data"
    and "data \<in> set formatted_data"
    and "py_getitem data ''timestamp'' = Inr (PStr ts)"
  shows "decode_epoch (encode_epoch ts) = ts \<and> CHR ''_'' \<notin> set ts"
proof -
  have "canonical_form ts"
    using format_data_timestamps [OF assms(1,2)] assms(3) by auto
  then have "url_safe ts" by (rule canonical_form_url_safe)
  then show ?thesis
    by (simp add: decode_encode_url_safe url_safe_no_underscore)
qed

lemma encode_epoch_sample:
  "encode_epoch ''1000-01-01 00:00:00.000000'' = ''1000-01-01__00_00_00.000000''"
  by code_simp

theorem epoch_path_roundtrip_witness:
  "snd (format_data strptime_oem float_literal damaged_data_dict) = Inr (take 2 test_formatted_data)
   \<and> test_record ''1000-01-01 00:00:00.000000'' [1, -2, 3, 4, -5, 6]
       \<in> set (take 2 test_formatted_data)
   \<and> decode_epoch ''1000-01-01__00_00_00.000000'' = ''1000-01-01 00:00:00.000000''"
proof -
  have m: "test_record ''1000-01-01 00:00:00.000000'' [1, -2, 3, 4, -5, 6]
             \<in> set (take 2 test_formatted_data)"
    by (simp add: test_formatted_data_def)
  have t: "py_getitem (test_record ''1000-01-01 00:00:00.000000'' [1, -2, 3, 4, -5, 6])
             ''timestamp'' = Inr (PStr ''1000-01-01 00:00:00.000000'')"
    by (simp add: test_record_def)
  show ?thesis
    using epoch_path_roundtrip [OF format_data_damaged m t] m format_data_damaged
    by (simp add: encode_epoch_sample)
qed

end
